theory Spec2Isabelle
  imports Main "HOL-Library.Word" "HOL-Library.List_Lexorder"
begin

unbundle bit_operations_syntax

section \<open>Python values\<close>

text \<open>
  A Python \<^verbatim>\<open>str\<close> is a sequence of Unicode code points, so it is modelled as a list
  of naturals. \<open>ustr\<close> reads an ASCII literal of the source as such a sequence.
\<close>

type_synonym pystr = "nat list"

definition ustr :: "string \<Rightarrow> pystr" where
  "ustr s = map of_char s"

text \<open>
  \<^verbatim>\<open>str.strip()\<close> without argument removes leading and trailing whitespace, where
  whitespace is what \<^verbatim>\<open>str.isspace\<close> accepts: U+0009..U+000D, U+001C..U+0020, U+0085,
  U+00A0, U+1680, U+2000..U+200A, U+2028, U+2029, U+202F, U+205F and U+3000.
\<close>

definition isspace :: "nat \<Rightarrow> bool" where
  "isspace c \<longleftrightarrow>
     (9 \<le> c \<and> c \<le> 13) \<or> (28 \<le> c \<and> c \<le> 32) \<or> c = 133 \<or> c = 160 \<or> c = 5760 \<or>
     (8192 \<le> c \<and> c \<le> 8202) \<or> c = 8232 \<or> c = 8233 \<or> c = 8239 \<or> c = 8287 \<or> c = 12288"

definition lstrip :: "pystr \<Rightarrow> pystr" where
  "lstrip s = dropWhile isspace s"

definition rstrip :: "pystr \<Rightarrow> pystr" where
  "rstrip s = rev (dropWhile isspace (rev s))"

definition strip :: "pystr \<Rightarrow> pystr" where
  "strip s = rstrip (lstrip s)"

text \<open>\<^verbatim>\<open>sep.join(xs)\<close>\<close>

fun join :: "pystr \<Rightarrow> pystr list \<Rightarrow> pystr" where
  "join sep [] = []"
| "join sep [x] = x"
| "join sep (x # y # ys) = x @ sep @ join sep (y # ys)"

text \<open>\<^verbatim>\<open>str(n)\<close> for an \<^verbatim>\<open>int\<close>: decimal digits, with a minus sign when negative.\<close>

fun str_nat :: "nat \<Rightarrow> pystr" where
  "str_nat n = (if n < 10 then [48 + n] else str_nat (n div 10) @ [48 + n mod 10])"

definition str_int :: "int \<Rightarrow> pystr" where
  "str_int i = (if i < 0 then 45 # str_nat (nat (- i)) else str_nat (nat i))"

text \<open>
  The values that \<^verbatim>\<open>resp.json()\<close> and the pipeline hand back: \<^verbatim>\<open>None\<close>, \<^verbatim>\<open>bool\<close>,
  \<^verbatim>\<open>int\<close>, \<^verbatim>\<open>float\<close> (its 64 bits), \<^verbatim>\<open>str\<close>, \<^verbatim>\<open>list\<close> and \<^verbatim>\<open>dict\<close>. A \<^verbatim>\<open>dict\<close> is
  the list of its items in insertion order; its keys are pairwise distinct.
\<close>

datatype pyval =
    PyNone
  | PyBool bool
  | PyInt int
  | PyFloat "64 word"
  | PyStr pystr
  | PyList "pyval list"
  | PyDict "(pystr \<times> pyval) list"

text \<open>Truth value of an object, as \<^verbatim>\<open>or\<close> and \<^verbatim>\<open>not\<close> test it.\<close>

fun truthy :: "pyval \<Rightarrow> bool" where
  "truthy PyNone = False"
| "truthy (PyBool b) = b"
| "truthy (PyInt i) = (i \<noteq> 0)"
| "truthy (PyFloat w) = (push_bit 1 w \<noteq> 0)"
| "truthy (PyStr s) = (s \<noteq> [])"
| "truthy (PyList xs) = (xs \<noteq> [])"
| "truthy (PyDict d) = (d \<noteq> [])"

fun type_name :: "pyval \<Rightarrow> string" where
  "type_name PyNone = ''NoneType''"
| "type_name (PyBool b) = ''bool''"
| "type_name (PyInt i) = ''int''"
| "type_name (PyFloat w) = ''float''"
| "type_name (PyStr s) = ''str''"
| "type_name (PyList xs) = ''list''"
| "type_name (PyDict d) = ''dict''"

text \<open>
  \<^verbatim>\<open>str(x)\<close> is \<open>x\<close> itself for a \<^verbatim>\<open>str\<close> and \<^verbatim>\<open>repr(x)\<close> for every other value here.
  \<^verbatim>\<open>repr\<close> is a builtin of the interpreter: the model takes it as a parameter.
\<close>

definition py_str :: "(pyval \<Rightarrow> pystr) \<Rightarrow> pyval \<Rightarrow> pystr" where
  "py_str repr v = (case v of PyStr s \<Rightarrow> s | _ \<Rightarrow> repr v)"

section \<open>Exceptions\<close>

text \<open>
  Every exception carries the text that \<^verbatim>\<open>str(e)\<close> gives. \<open>RuntimeError\<close> is the only class
  the program raises itself; \<open>AttributeError\<close> is what \<^verbatim>\<open>x.strip()\<close> raises on a value
  that is no string; \<open>OSError\<close>, \<open>RequestException\<close> and \<open>JSONDecodeError\<close> come from
  \<^verbatim>\<open>open\<close>, \<^verbatim>\<open>requests.post\<close> and \<^verbatim>\<open>resp.json\<close>; \<open>OtherException\<close> is any other class,
  as the model runtime may raise.
\<close>

datatype py_exc =
    RuntimeError pystr
  | AttributeError pystr
  | OSError pystr
  | RequestException pystr
  | JSONDecodeError pystr
  | OtherException pystr

fun exc_str :: "py_exc \<Rightarrow> pystr" where
  "exc_str (RuntimeError m) = m"
| "exc_str (AttributeError m) = m"
| "exc_str (OSError m) = m"
| "exc_str (RequestException m) = m"
| "exc_str (JSONDecodeError m) = m"
| "exc_str (OtherException m) = m"

text \<open>\<^verbatim>\<open>v.strip()\<close> on an arbitrary value.\<close>

definition call_strip :: "pyval \<Rightarrow> py_exc + pystr" where
  "call_strip v =
     (case v of
        PyStr s \<Rightarrow> Inr (strip s)
      | _ \<Rightarrow> Inl (AttributeError
                 (ustr ([CHR 0x27] @ type_name v @ [CHR 0x27] @ '' object has no attribute '' @
                        [CHR 0x27] @ ''strip'' @ [CHR 0x27]))))"

section \<open>The world outside the program\<close>

text \<open>
  The image argument is a path string or an object (a binary file object for the remote
  path, a PIL image for the local one), identified by a handle.
\<close>

datatype image_arg = ImagePath pystr | ImageObject nat

text \<open>The keyword arguments of \<^verbatim>\<open>requests.post\<close>, and the fields of the response it reads.\<close>

record http_request =
  req_url :: pystr
  req_headers :: "(pystr \<times> pystr) list"
  req_files :: "(pystr \<times> nat) list"
  req_params :: "pyval option"
  req_data :: "pyval option"
  req_timeout :: nat

record http_response =
  resp_status_code :: int
  resp_text :: pystr
  resp_json :: "pystr + pyval"

text \<open>
  A pipeline instance is what \<^verbatim>\<open>pipeline("image-to-text", model=..., device=...)\<close>
  returns: it is determined by the model name and the device it was built for.
\<close>

datatype pipeline = Pipeline (pipe_model: pystr) (pipe_device: int)

text \<open>
  What the program finds around it during one call: the outcome of the optional imports
  (\<^verbatim>\<open>_have_requests\<close>, \<^verbatim>\<open>_have_transformers\<close>, \<^verbatim>\<open>_have_torch\<close>), the environment
  variable, the builtin \<^verbatim>\<open>repr\<close>, and the answers of \<^verbatim>\<open>open\<close>, \<^verbatim>\<open>requests.post\<close>,
  \<^verbatim>\<open>torch.cuda.is_available\<close>, \<^verbatim>\<open>transformers.pipeline\<close> (\<open>None\<close>: the instance is built)
  and of a call of the pipeline instance.
\<close>

record env =
  have_requests :: bool
  have_transformers :: bool
  have_torch :: bool
  environ_HF_API_TOKEN :: "pystr option"
  py_repr :: "pyval \<Rightarrow> pystr"
  open_rb :: "pystr \<Rightarrow> pystr + nat"
  requests_post :: "http_request \<Rightarrow> pystr + http_response"
  cuda_is_available :: bool
  pipeline_raises :: "pystr \<Rightarrow> int \<Rightarrow> py_exc option"
  pipeline_call :: "pipeline \<Rightarrow> image_arg \<Rightarrow> int \<Rightarrow> py_exc + pyval"

text \<open>
  The effects of the program on the world, in the order they happen. A construction of a
  pipeline is logged with its outcome.
\<close>

datatype event =
    EvOpen pystr
  | EvPost http_request
  | EvClose nat
  | EvPipeline pystr int bool
  | EvCall pipeline image_arg int

text \<open>The state of the process: the module's global \<^verbatim>\<open>_caption_pipeline\<close> and the effects so far.\<close>

record proc =
  caption_pipeline :: "pipeline option"
  trace :: "event list"

definition emit :: "event \<Rightarrow> proc \<Rightarrow> proc" where
  "emit e s = s\<lparr>trace := trace s @ [e]\<rparr>"

definition default_model :: pystr where
  "default_model = ustr ''Salesforce/blip-image-captioning-base''"

section \<open>Hugging Face Inference API: \<^verbatim>\<open>caption_via_hf_api\<close>\<close>

definition requests_missing :: py_exc where
  "requests_missing = RuntimeError (ustr ''requests library not installed. pip install requests'')"

definition token_missing :: py_exc where
  "token_missing = RuntimeError
     (ustr ''Hugging Face API token not provided. Set HF_API_TOKEN env var or pass hf_token.'')"

definition api_error :: "int \<Rightarrow> pystr \<Rightarrow> py_exc" where
  "api_error status body =
     RuntimeError (ustr ''Hugging Face API error '' @ str_int status @ ustr '': '' @ body)"

text \<open>\<^verbatim>\<open>hf_token or os.environ.get("HF_API_TOKEN")\<close>\<close>

fun resolve_token :: "pystr option \<Rightarrow> pystr option \<Rightarrow> pystr option" where
  "resolve_token (Some t) e = (if t \<noteq> [] then Some t else e)"
| "resolve_token None e = e"

text \<open>
  The loop \<^verbatim>\<open>for key in (...): if key in d: return d[key].strip()\<close>: \<open>None\<close> when the loop
  ends without returning.
\<close>

fun first_key :: "pystr list \<Rightarrow> (pystr \<times> pyval) list \<Rightarrow> (py_exc + pystr) option" where
  "first_key [] d = None"
| "first_key (key # keys) d =
     (case map_of d key of
        Some v \<Rightarrow> Some (call_strip v)
      | None \<Rightarrow> first_key keys d)"

definition caption_keys :: "pystr list" where
  "caption_keys = [ustr ''generated_text'', ustr ''caption'', ustr ''text'']"

text \<open>Lines 111 to 125: from the decoded JSON to the caption.\<close>

fun hf_normalize :: "(pyval \<Rightarrow> pystr) \<Rightarrow> pyval \<Rightarrow> py_exc + pystr" where
  "hf_normalize repr (PyList (PyDict d # rest)) =
     (case first_key caption_keys d of
        Some r \<Rightarrow> r
      | None \<Rightarrow> Inr (strip (join (ustr '' '') (map (\<lambda>(k, v). py_str repr v) d))))"
| "hf_normalize repr (PyDict d) =
     (case first_key caption_keys d of
        Some r \<Rightarrow> r
      | None \<Rightarrow> Inr (strip (py_str repr (PyDict d))))"
| "hf_normalize repr j = Inr (py_str repr j)"

text \<open>
  The dictionary \<^verbatim>\<open>params\<close> that line 101 builds.
\<close>

definition hf_params :: "int \<Rightarrow> pyval" where
  "hf_params max_length =
     PyDict [(ustr ''options'', PyDict [(ustr ''wait_for_model'', PyBool True)]),
             (ustr ''parameters'', PyDict [(ustr ''max_new_tokens'', PyInt max_length)])]"

text \<open>Line 91 and line 92: the URL and the headers.\<close>

definition hf_url :: "pystr \<Rightarrow> pystr" where
  "hf_url model = ustr ''https://api-inference.huggingface.co/models/'' @ model"

definition hf_headers :: "pystr \<Rightarrow> (pystr \<times> pystr) list" where
  "hf_headers token = [(ustr ''Authorization'', ustr ''Bearer '' @ token)]"

text \<open>
  Lines 94 to 99: a path is opened (and the file closed after the POST), any other
  argument is taken as the file object. The result is \<open>(f, close_after)\<close>.
\<close>

definition hf_open :: "env \<Rightarrow> proc \<Rightarrow> image_arg \<Rightarrow> proc \<times> (py_exc + nat \<times> bool)" where
  "hf_open E s image_path_or_fileobj =
     (case image_path_or_fileobj of
        ImagePath p \<Rightarrow>
          (case open_rb E p of
             Inl m \<Rightarrow> (emit (EvOpen p) s, Inl (OSError m))
           | Inr f \<Rightarrow> (emit (EvOpen p) s, Inr (f, True)))
      | ImageObject f \<Rightarrow> (s, Inr (f, False)))"

text \<open>Line 100 and line 103: the arguments of \<^verbatim>\<open>requests.post\<close>.\<close>

definition hf_request :: "pystr \<Rightarrow> (pystr \<times> pystr) list \<Rightarrow> nat \<Rightarrow> http_request" where
  "hf_request url headers f =
     (let files = [(ustr ''inputs'', f)]
      in \<lparr>req_url = url, req_headers = headers, req_files = files,
          req_params = None, req_data = None, req_timeout = 120\<rparr>)"

text \<open>Lines 103 to 125: the POST, closing the file, the status check, decoding.\<close>

definition hf_post ::
  "env \<Rightarrow> proc \<Rightarrow> pystr \<Rightarrow> (pystr \<times> pystr) list \<Rightarrow> nat \<Rightarrow> bool \<Rightarrow> proc \<times> (py_exc + pystr)" where
  "hf_post E s url headers f close_after =
     (let req = hf_request url headers f;
          s1 = emit (EvPost req) s
      in case requests_post E req of
           Inl m \<Rightarrow> (s1, Inl (RequestException m))
         | Inr resp \<Rightarrow>
             (let s2 = (if close_after then emit (EvClose f) s1 else s1)
              in if resp_status_code resp \<noteq> 200
                 then (s2, Inl (api_error (resp_status_code resp) (resp_text resp)))
                 else (case resp_json resp of
                         Inl m \<Rightarrow> (s2, Inl (JSONDecodeError m))
                       | Inr j \<Rightarrow> (s2, hf_normalize (py_repr E) j))))"

definition caption_via_hf_api ::
  "env \<Rightarrow> proc \<Rightarrow> image_arg \<Rightarrow> pystr option \<Rightarrow> pystr \<Rightarrow> int \<Rightarrow> proc \<times> (py_exc + pystr)" where
  "caption_via_hf_api E s image_path_or_fileobj hf_token model max_length =
     (if \<not> have_requests E then (s, Inl requests_missing)
      else case resolve_token hf_token (environ_HF_API_TOKEN E) of
        None \<Rightarrow> (s, Inl token_missing)
      | Some token \<Rightarrow>
          if token = [] then (s, Inl token_missing)
          else
            (let url = hf_url model;
                 headers = hf_headers token
             in case hf_open E s image_path_or_fileobj of
                  (s1, Inl e) \<Rightarrow> (s1, Inl e)
                | (s1, Inr (f, close_after)) \<Rightarrow>
                    (let params = hf_params max_length
                     in hf_post E s1 url headers f close_after)))"

section \<open>Local pipeline: \<^verbatim>\<open>ensure_local_pipeline\<close>, \<^verbatim>\<open>generate_caption_local\<close>\<close>

definition transformers_missing :: py_exc where
  "transformers_missing = RuntimeError (ustr ''transformers not installed. pip install transformers'')"

definition torch_missing :: py_exc where
  "torch_missing = RuntimeError (ustr ''torch not installed. pip install torch'')"

definition ensure_local_pipeline :: "env \<Rightarrow> proc \<Rightarrow> pystr \<Rightarrow> proc \<times> (py_exc + pipeline)" where
  "ensure_local_pipeline E s model_name =
     (case caption_pipeline s of
        Some p \<Rightarrow> (s, Inr p)
      | None \<Rightarrow>
          if \<not> have_transformers E then (s, Inl transformers_missing)
          else if \<not> have_torch E then (s, Inl torch_missing)
          else
            (let device = (if cuda_is_available E then 0 else - 1)
             in case pipeline_raises E model_name device of
                  Some e \<Rightarrow>
                    (emit (EvPipeline model_name device False) s,
                     Inl (RuntimeError (ustr ''Failed to create pipeline: '' @ exc_str e)))
                | None \<Rightarrow>
                    ((emit (EvPipeline model_name device True) s)
                       \<lparr>caption_pipeline := Some (Pipeline model_name device)\<rparr>,
                     Inr (Pipeline model_name device))))"

text \<open>
  Lines 158 to 163, inside the \<^verbatim>\<open>try\<close>: from the pipeline's output to the caption.
  \<^verbatim>\<open>d.get(k)\<close> is \<^verbatim>\<open>None\<close> for a missing key; \<^verbatim>\<open>txt or ""\<close> is \<^verbatim>\<open>""\<close> for a false \<open>txt\<close>.
\<close>

fun local_normalize :: "(pyval \<Rightarrow> pystr) \<Rightarrow> pyval \<Rightarrow> py_exc + pystr" where
  "local_normalize repr (PyList (x # rest)) =
     (let txt = (case x of
                   PyDict d \<Rightarrow> (case map_of d (ustr ''generated_text'') of
                                  Some v \<Rightarrow> v
                                | None \<Rightarrow> PyNone)
                 | _ \<Rightarrow> PyStr (py_str repr x))
      in call_strip (if truthy txt then txt else PyStr []))"
| "local_normalize repr out = Inr (py_str repr out)"

definition inference_failed :: "py_exc \<Rightarrow> py_exc" where
  "inference_failed e = RuntimeError (ustr ''Model inference failed: '' @ exc_str e)"

definition generate_caption_local ::
  "env \<Rightarrow> proc \<Rightarrow> image_arg \<Rightarrow> int \<Rightarrow> proc \<times> (py_exc + pystr)" where
  "generate_caption_local E s image_path_or_pil max_length =
     (case ensure_local_pipeline E s default_model of
        (s1, Inl e) \<Rightarrow> (s1, Inl e)
      | (s1, Inr pipe) \<Rightarrow>
          (let inputs = image_path_or_pil;
               s2 = emit (EvCall pipe inputs max_length) s1
           in case pipeline_call E pipe inputs max_length of
                Inl e \<Rightarrow> (s2, Inl (inference_failed e))
              | Inr out \<Rightarrow>
                  (case local_normalize (py_repr E) out of
                     Inl e \<Rightarrow> (s2, Inl (inference_failed e))
                   | Inr txt \<Rightarrow> (s2, Inr txt))))"

section \<open>Unified wrapper: \<^verbatim>\<open>generate_caption\<close>\<close>

definition generate_caption ::
  "env \<Rightarrow> proc \<Rightarrow> image_arg \<Rightarrow> bool \<Rightarrow> pystr option \<Rightarrow> pystr \<Rightarrow> int \<Rightarrow> proc \<times> (py_exc + pystr)" where
  "generate_caption E s image_path use_api hf_token model_name max_length =
     (if use_api then caption_via_hf_api E s image_path hf_token model_name max_length
      else generate_caption_local E s image_path max_length)"

section \<open>Shapes of a response\<close>

text \<open>\<^verbatim>\<open>isinstance(j, dict)\<close>\<close>

fun is_dict :: "pyval \<Rightarrow> bool" where
  "is_dict (PyDict d) = True"
| "is_dict v = False"

text \<open>\<^verbatim>\<open>isinstance(j, list) and len(j) > 0 and isinstance(j[0], dict)\<close>\<close>

fun list_of_dict :: "pyval \<Rightarrow> bool" where
  "list_of_dict (PyList (x # rest)) = is_dict x"
| "list_of_dict v = False"

section \<open>A concrete world for the examples\<close>

text \<open>
  \<^verbatim>\<open>repr\<close> on plain values: \<^verbatim>\<open>None\<close>, booleans, integers, strings of printable ASCII
  characters without quotes and backslashes, and lists and dicts of these (a float is
  printed right only when it is \<^verbatim>\<open>0.0\<close>).
\<close>

fun repr_plain :: "pyval \<Rightarrow> pystr" where
  "repr_plain PyNone = ustr ''None''"
| "repr_plain (PyBool b) = (if b then ustr ''True'' else ustr ''False'')"
| "repr_plain (PyInt i) = str_int i"
| "repr_plain (PyFloat w) = (if w = 0 then ustr ''0.0'' else ustr ''nan'')"
| "repr_plain (PyStr s) = 39 # s @ [39]"
| "repr_plain (PyList xs) = 91 # join (ustr '', '') (map repr_plain xs) @ [93]"
| "repr_plain (PyDict d) =
     123 # join (ustr '', '')
             (map (\<lambda>(k, v). (39 # k @ [39]) @ ustr '': '' @ repr_plain v) d) @ [125]"

text \<open>
  A world where every import succeeded, the variable \<^verbatim>\<open>HF_API_TOKEN\<close> is not set, every
  file opens, the endpoint answers \<open>resp\<close>, there is no CUDA device, the pipeline is built
  and answers \<open>out\<close>.
\<close>

definition world :: "http_response \<Rightarrow> pyval \<Rightarrow> env" where
  "world resp out =
     \<lparr>have_requests = True, have_transformers = True, have_torch = True,
      environ_HF_API_TOKEN = None, py_repr = repr_plain,
      open_rb = (\<lambda>p. Inr 3), requests_post = (\<lambda>req. Inr resp),
      cuda_is_available = False, pipeline_raises = (\<lambda>m d. None),
      pipeline_call = (\<lambda>p i n. Inr out)\<rparr>"

text \<open>The process right after the module is loaded.\<close>

definition proc0 :: proc where
  "proc0 = \<lparr>caption_pipeline = None, trace = []\<rparr>"

section \<open>Shapes of a pipeline output, kinds of effects\<close>

text \<open>\<^verbatim>\<open>isinstance(out, list) and len(out) > 0\<close>\<close>

fun nonempty_list :: "pyval \<Rightarrow> bool" where
  "nonempty_list (PyList (x # rest)) = True"
| "nonempty_list v = False"

text \<open>The effects of the remote path: opening and closing the file, the POST.\<close>

fun remote_event :: "event \<Rightarrow> bool" where
  "remote_event (EvOpen p) = True"
| "remote_event (EvPost req) = True"
| "remote_event (EvClose f) = True"
| "remote_event (EvPipeline m d ok) = False"
| "remote_event (EvCall p i n) = False"

text \<open>A construction of a pipeline that succeeded.\<close>

fun built :: "event \<Rightarrow> bool" where
  "built (EvPipeline m d ok) = ok"
| "built e = False"

section \<open>A process as a sequence of calls\<close>

text \<open>
  The four functions of the module that read or write \<^verbatim>\<open>_caption_pipeline\<close>, each with the
  world it finds when it is called and with its arguments. A process is any sequence of
  such calls; \<open>run\<close> gives the state they leave.
\<close>

datatype call =
    GenerateCaption env image_arg bool "pystr option" pystr int
  | GenerateCaptionLocal env image_arg int
  | EnsureLocalPipeline env pystr
  | CaptionViaHfApi env image_arg "pystr option" pystr int

fun step :: "proc \<Rightarrow> call \<Rightarrow> proc" where
  "step s (GenerateCaption E img use_api hf_token model_name max_length) =
     fst (generate_caption E s img use_api hf_token model_name max_length)"
| "step s (GenerateCaptionLocal E img max_length) = fst (generate_caption_local E s img max_length)"
| "step s (EnsureLocalPipeline E model_name) = fst (ensure_local_pipeline E s model_name)"
| "step s (CaptionViaHfApi E img hf_token model max_length) =
     fst (caption_via_hf_api E s img hf_token model max_length)"

definition run :: "proc \<Rightarrow> call list \<Rightarrow> proc" where
  "run s cs = foldl step s cs"

text \<open>
  The only moves of the memoization: the cached pipeline stays what it is and nothing is
  built, or the cache goes from \<^verbatim>\<open>None\<close> to an instance and exactly that instance is built.
\<close>

definition one_way :: "proc \<Rightarrow> proc \<Rightarrow> bool" where
  "one_way s s' \<longleftrightarrow>
     (caption_pipeline s' = caption_pipeline s \<and>
      filter built (trace s') = filter built (trace s)) \<or>
     (caption_pipeline s = None \<and>
      (case caption_pipeline s' of
         None \<Rightarrow> False
       | Some p \<Rightarrow>
           filter built (trace s') =
             filter built (trace s) @ [EvPipeline (pipe_model p) (pipe_device p) True]))"

section \<open>The fallback text in the words of the specification\<close>

text \<open>
  The specification asks for the concatenation of all values of the record in a
  deterministic order, key-sorted for example. This is that text, to compare the
  normalizer with: keys in the order of Python's string comparison (code point by code
  point), values stringified, nothing in between.
\<close>

definition spec_key_sorted_concat :: "(pyval \<Rightarrow> pystr) \<Rightarrow> (pystr \<times> pyval) list \<Rightarrow> pystr" where
  "spec_key_sorted_concat repr d = concat (map (\<lambda>(k, v). py_str repr v) (sort_key fst d))"

section \<open>Strings\<close>

lemma ustr_eq_iff [simp]: "ustr a = ustr b \<longleftrightarrow> a = b"
  unfolding ustr_def by (rule inj_map_eq_map [OF inj_of_char])

lemma ustr_Nil_iff [simp]: "ustr s = [] \<longleftrightarrow> s = []"
  by (simp add: ustr_def)

lemma rstrip_prefix: "rstrip t @ rev (takeWhile isspace (rev t)) = t"
proof -
  have "rstrip t @ rev (takeWhile isspace (rev t)) =
        rev (takeWhile isspace (rev t) @ dropWhile isspace (rev t))"
    by (simp only: rstrip_def rev_append)
  also have "\<dots> = rev (rev t)"
    by (simp only: takeWhile_dropWhile_id)
  finally show ?thesis by simp
qed

lemma rstrip_idem: "rstrip (rstrip t) = rstrip t"
  by (simp add: rstrip_def)

text \<open>What is left of a string stripped on the left still starts with no whitespace.\<close>

lemma lstrip_rstrip_lstrip: "lstrip (rstrip (lstrip s)) = rstrip (lstrip s)"
proof (cases "rstrip (lstrip s) = []")
  case True
  then show ?thesis by (simp add: lstrip_def)
next
  case False
  let ?t = "lstrip s"
  have t: "rstrip ?t @ rev (takeWhile isspace (rev ?t)) = ?t" by (rule rstrip_prefix)
  with False have ne: "?t \<noteq> []" by auto
  from t False have "hd (rstrip ?t) = hd ?t" by (metis hd_append2)
  moreover from ne have "\<not> isspace (hd ?t)" unfolding lstrip_def by (rule hd_dropWhile)
  ultimately have "\<not> isspace (hd (rstrip ?t))" by simp
  then show ?thesis by (simp add: lstrip_def dropWhile_eq_self_iff)
qed

lemma strip_idem: "strip (strip s) = strip s"
  by (simp add: strip_def lstrip_rstrip_lstrip rstrip_idem)

lemma call_strip_Inr: "call_strip v = Inr c \<longleftrightarrow> (\<exists>x. v = PyStr x \<and> c = strip x)"
  by (cases v) (auto simp: call_strip_def)

lemma call_strip_Inl: "call_strip v = Inl e \<Longrightarrow> \<exists>m. e = AttributeError m"
  by (cases v) (auto simp: call_strip_def)

section \<open>The remote normalizer\<close>

lemma first_key_Inr: "first_key ks d = Some (Inr c) \<Longrightarrow> strip c = c"
  by (induction ks) (auto simp: call_strip_Inr strip_idem split: option.splits)

lemma first_key_Inl: "first_key ks d = Some (Inl e) \<Longrightarrow> \<exists>m. e = AttributeError m"
  by (induction ks) (auto dest: call_strip_Inl split: option.splits)

lemma hf_normalize_other:
  "\<not> list_of_dict j \<Longrightarrow> \<not> is_dict j \<Longrightarrow> hf_normalize repr j = Inr (py_str repr j)"
  by (induction repr j rule: hf_normalize.induct) simp_all

lemma hf_normalize_trimmed:
  "list_of_dict j \<or> is_dict j \<Longrightarrow> hf_normalize repr j = Inr c \<Longrightarrow> strip c = c"
  by (induction repr j rule: hf_normalize.induct)
     (auto simp: strip_idem dest: first_key_Inr split: option.splits)

lemma hf_normalize_Inl: "hf_normalize repr j = Inl e \<Longrightarrow> \<exists>m. e = AttributeError m"
  by (induction repr j rule: hf_normalize.induct)
     (auto dest: first_key_Inl split: option.splits)

text \<open>
  Once the library is there, a credential is resolved, the file is at hand and the endpoint
  has answered, the outcome of the call is decided by the response alone.
\<close>

lemma caption_via_hf_api_response:
  assumes "have_requests E"
    and "resolve_token hf_token (environ_HF_API_TOKEN E) = Some token" and "token \<noteq> []"
    and "hf_open E s img = (s1, Inr (f, close_after))"
    and "requests_post E (hf_request (hf_url model) (hf_headers token) f) = Inr resp"
  shows "snd (caption_via_hf_api E s img hf_token model max_length) =
     (if resp_status_code resp \<noteq> 200
      then Inl (api_error (resp_status_code resp) (resp_text resp))
      else case resp_json resp of
             Inl m \<Rightarrow> Inl (JSONDecodeError m)
           | Inr j \<Rightarrow> hf_normalize (py_repr E) j)"
  using assms by (simp add: caption_via_hf_api_def hf_post_def Let_def split: sum.splits)

text \<open>
  C9. When the endpoint answers 200 with a JSON value that is neither a non-empty list
  whose first element is a dict nor a dict (the last \<^verbatim>\<open>else\<close> of the normalizer),
  \<^verbatim>\<open>caption_via_hf_api\<close> returns \<^verbatim>\<open>str(j)\<close> of the whole value as it is, with no
  \<^verbatim>\<open>strip\<close>. In the two other branches every caption returned is stripped.
\<close>

theorem hf_other_shapes_untrimmed:
  assumes "have_requests E"
    and "resolve_token hf_token (environ_HF_API_TOKEN E) = Some token" and "token \<noteq> []"
    and "hf_open E s img = (s1, Inr (f, close_after))"
    and "requests_post E (hf_request (hf_url model) (hf_headers token) f) = Inr resp"
    and "resp_status_code resp = 200" and "resp_json resp = Inr j"
  shows "(\<not> list_of_dict j \<and> \<not> is_dict j \<longrightarrow>
            snd (caption_via_hf_api E s img hf_token model max_length) =
              Inr (py_str (py_repr E) j)) \<and>
         (list_of_dict j \<or> is_dict j \<longrightarrow>
            (\<forall>c. snd (caption_via_hf_api E s img hf_token model max_length) = Inr c
                 \<longrightarrow> strip c = c))"
proof -
  have r: "snd (caption_via_hf_api E s img hf_token model max_length) =
             hf_normalize (py_repr E) j"
    using assms by (simp add: caption_via_hf_api_response)
  show ?thesis
    unfolding r
    by (auto simp: hf_normalize_other
             intro: hf_normalize_trimmed [OF disjI1] hf_normalize_trimmed [OF disjI2])
qed

text \<open>
  The body is the JSON string \<^verbatim>\<open>" a dog "\<close>: the caption keeps its blanks.
\<close>

theorem hf_other_shapes_untrimmed_witness:
  "snd (caption_via_hf_api
          (world \<lparr>resp_status_code = 200,
                  resp_text = ustr ([CHR 0x22] @ '' a dog '' @ [CHR 0x22]),
                  resp_json = Inr (PyStr (ustr '' a dog ''))\<rparr> PyNone)
          proc0 (ImageObject 7) (Some (ustr ''hf_abc'')) default_model 40) =
     Inr (ustr '' a dog '') \<and> strip (ustr '' a dog '') \<noteq> ustr '' a dog ''"
  using hf_other_shapes_untrimmed
    [of "world \<lparr>resp_status_code = 200,
                 resp_text = ustr ([CHR 0x22] @ '' a dog '' @ [CHR 0x22]),
                 resp_json = Inr (PyStr (ustr '' a dog ''))\<rparr> PyNone"
        "Some (ustr ''hf_abc'')" "ustr ''hf_abc''" proc0 "ImageObject 7" proc0 7 False
        default_model _ "PyStr (ustr '' a dog '')" 40]
  by (simp add: world_def hf_open_def py_str_def)
     (simp add: ustr_def strip_def lstrip_def rstrip_def isspace_def)

section \<open>Credential and status\<close>

lemma api_error_not_token_missing: "api_error status body \<noteq> token_missing"
  by (simp add: api_error_def token_missing_def ustr_def)

lemma hf_post_not_token_missing: "snd (hf_post E s url headers f c) \<noteq> Inl token_missing"
  by (auto simp: hf_post_def Let_def token_missing_def api_error_def ustr_def
           dest: hf_normalize_Inl split: sum.splits)

lemma hf_open_Inl: "hf_open E s img = (s1, Inl e) \<Longrightarrow> \<exists>m. e = OSError m"
  by (auto simp: hf_open_def split: image_arg.splits sum.splits)

lemma token_missing_iff:
  assumes "have_requests E"
  shows "snd (caption_via_hf_api E s img hf_token model max_length) = Inl token_missing \<longleftrightarrow>
         (hf_token = None \<or> hf_token = Some []) \<and>
         (environ_HF_API_TOKEN E = None \<or> environ_HF_API_TOKEN E = Some [])"
proof (cases "resolve_token hf_token (environ_HF_API_TOKEN E)")
  case None
  then show ?thesis using assms
    by (cases hf_token) (auto simp: caption_via_hf_api_def split: if_splits)
next
  case (Some token)
  show ?thesis
  proof (cases "token = []")
    case True
    with Some show ?thesis using assms
      by (cases hf_token) (auto simp: caption_via_hf_api_def split: if_splits)
  next
    case False
    have "snd (caption_via_hf_api E s img hf_token model max_length) \<noteq> Inl token_missing"
    proof (cases "hf_open E s img")
      case (Pair s1 r)
      show ?thesis
      proof (cases r)
        case (Inl e)
        with Pair obtain m where "e = OSError m" by (auto dest: hf_open_Inl)
        with Pair Inl Some False assms show ?thesis
          by (simp add: caption_via_hf_api_def token_missing_def)
      next
        case (Inr fc)
        with Pair Some False assms show ?thesis
          by (cases fc) (simp add: caption_via_hf_api_def Let_def hf_post_not_token_missing)
      qed
    qed
    moreover from Some False
    have "\<not> ((hf_token = None \<or> hf_token = Some []) \<and>
             (environ_HF_API_TOKEN E = None \<or> environ_HF_API_TOKEN E = Some []))"
      by (cases hf_token) (auto split: if_splits)
    ultimately show ?thesis by simp
  qed
qed

text \<open>
  C10 (as amended). With the \<^verbatim>\<open>requests\<close> library present, an explicit credential that is
  the empty string is treated as an absent one: the call is the call without it, so the
  environment variable decides. The missing-credential error is raised exactly when the
  explicit argument is absent or empty and the environment variable is unset or empty.
\<close>

theorem empty_token_falls_through:
  assumes "have_requests E"
  shows "caption_via_hf_api E s img (Some []) model max_length =
           caption_via_hf_api E s img None model max_length \<and>
         (snd (caption_via_hf_api E s img hf_token model max_length) = Inl token_missing \<longleftrightarrow>
            (hf_token = None \<or> hf_token = Some []) \<and>
            (environ_HF_API_TOKEN E = None \<or> environ_HF_API_TOKEN E = Some []))"
  using token_missing_iff [OF assms] by (simp add: caption_via_hf_api_def)

text \<open>An empty explicit credential and \<^verbatim>\<open>HF_API_TOKEN=hf_env\<close>: the call goes on to the POST.\<close>

theorem empty_token_falls_through_witness:
  "caption_via_hf_api
     ((world \<lparr>resp_status_code = 503, resp_text = ustr ''loading'', resp_json = Inl []\<rparr> PyNone)
        \<lparr>environ_HF_API_TOKEN := Some (ustr ''hf_env'')\<rparr>)
     proc0 (ImageObject 7) (Some []) default_model 40 =
   caption_via_hf_api
     ((world \<lparr>resp_status_code = 503, resp_text = ustr ''loading'', resp_json = Inl []\<rparr> PyNone)
        \<lparr>environ_HF_API_TOKEN := Some (ustr ''hf_env'')\<rparr>)
     proc0 (ImageObject 7) None default_model 40 \<and>
   snd (caption_via_hf_api
     ((world \<lparr>resp_status_code = 503, resp_text = ustr ''loading'', resp_json = Inl []\<rparr> PyNone)
        \<lparr>environ_HF_API_TOKEN := Some (ustr ''hf_env'')\<rparr>)
     proc0 (ImageObject 7) (Some []) default_model 40) \<noteq> Inl token_missing"
proof -
  let ?W = "(world \<lparr>resp_status_code = 503, resp_text = ustr ''loading'', resp_json = Inl []\<rparr> PyNone)
              \<lparr>environ_HF_API_TOKEN := Some (ustr ''hf_env'')\<rparr>"
  have h: "have_requests ?W" by (simp add: world_def)
  have e: "environ_HF_API_TOKEN ?W \<noteq> None \<and> environ_HF_API_TOKEN ?W \<noteq> Some []" by simp
  note th = empty_token_falls_through [OF h, of proc0 "ImageObject 7" default_model 40 "Some []"]
  show ?thesis
  proof (rule conjI)
    from th show "caption_via_hf_api ?W proc0 (ImageObject 7) (Some []) default_model 40 =
                  caption_via_hf_api ?W proc0 (ImageObject 7) None default_model 40"
      by (rule conjunct1)
  next
    from th e
    show "snd (caption_via_hf_api ?W proc0 (ImageObject 7) (Some []) default_model 40) \<noteq>
          Inl token_missing"
      by blast
  qed
qed

text \<open>
  C10 as stated fails: with \<^verbatim>\<open>HF_API_TOKEN\<close> set to the empty string (the variable is set)
  and no explicit credential, the missing-credential error is raised.
\<close>

theorem env_token_set_but_empty:
  "environ_HF_API_TOKEN
     ((world \<lparr>resp_status_code = 200, resp_text = [], resp_json = Inr PyNone\<rparr> PyNone)
        \<lparr>environ_HF_API_TOKEN := Some []\<rparr>) \<noteq> None \<and>
   caption_via_hf_api
     ((world \<lparr>resp_status_code = 200, resp_text = [], resp_json = Inr PyNone\<rparr> PyNone)
        \<lparr>environ_HF_API_TOKEN := Some []\<rparr>)
     proc0 (ImageObject 7) None default_model 40 = (proc0, Inl token_missing)"
  by (simp add: world_def caption_via_hf_api_def)

section \<open>Credential resolution\<close>

lemma hf_open_environ [simp]: "hf_open (E\<lparr>environ_HF_API_TOKEN := e\<rparr>) s img = hf_open E s img"
  by (simp add: hf_open_def split: image_arg.splits sum.splits)

lemma hf_post_environ [simp]:
  "hf_post (E\<lparr>environ_HF_API_TOKEN := e\<rparr>) s url headers f c = hf_post E s url headers f c"
  by (simp add: hf_post_def Let_def split: sum.splits)




section \<open>HTTP status\<close>

text \<open>
  C3 (as amended). Once the endpoint has answered, \<^verbatim>\<open>caption_via_hf_api\<close> raises
  \<^verbatim>\<open>RuntimeError("Hugging Face API error <status>: <body>")\<close>, with the status code and the
  raw body, whenever the status is not 200. When the status is 200 it raises no
  \<^verbatim>\<open>RuntimeError\<close> at all, and if the body decodes to \<open>j\<close> the outcome is that of the
  normalizer on \<open>j\<close>.
\<close>

theorem api_error_iff_not_200:
  assumes "have_requests E"
    and "resolve_token hf_token (environ_HF_API_TOKEN E) = Some token" and "token \<noteq> []"
    and "hf_open E s img = (s1, Inr (f, close_after))"
    and "requests_post E (hf_request (hf_url model) (hf_headers token) f) = Inr resp"
  shows "(resp_status_code resp \<noteq> 200 \<longrightarrow>
            snd (caption_via_hf_api E s img hf_token model max_length) =
              Inl (api_error (resp_status_code resp) (resp_text resp))) \<and>
         (resp_status_code resp = 200 \<longrightarrow>
            (\<forall>m. snd (caption_via_hf_api E s img hf_token model max_length) \<noteq>
                    Inl (RuntimeError m)) \<and>
            (\<forall>j. resp_json resp = Inr j \<longrightarrow>
                 snd (caption_via_hf_api E s img hf_token model max_length) =
                   hf_normalize (py_repr E) j))"
proof -
  note r = caption_via_hf_api_response [OF assms, of max_length]
  show ?thesis
    unfolding r by (auto dest: hf_normalize_Inl split: sum.splits)
qed

text \<open>Status 503 with the body \<^verbatim>\<open>loading\<close>.\<close>

theorem api_error_iff_not_200_witness:
  "snd (caption_via_hf_api
          (world \<lparr>resp_status_code = 503, resp_text = ustr ''loading'', resp_json = Inl []\<rparr> PyNone)
          proc0 (ImageObject 7) (Some (ustr ''hf_abc'')) default_model 40) =
     Inl (RuntimeError (ustr ''Hugging Face API error 503: loading''))"
  using api_error_iff_not_200
    [of "world \<lparr>resp_status_code = 503, resp_text = ustr ''loading'', resp_json = Inl []\<rparr> PyNone"
        "Some (ustr ''hf_abc'')" "ustr ''hf_abc''" proc0 "ImageObject 7" proc0 7 False
        default_model _ 40]
  by (simp add: world_def hf_open_def api_error_def) (simp add: ustr_def str_int_def)

text \<open>
  C3 as stated fails: 201 is a success status (2xx), and the call raises the API error.
\<close>

theorem status_201_is_an_error:
  "(200::int) \<le> 201 \<and> (201::int) < 300 \<and>
   snd (caption_via_hf_api
          (world \<lparr>resp_status_code = 201, resp_text = ustr ''[{\"generated_text\": \"a dog\"}]'',
                  resp_json = Inr (PyList [PyDict [(ustr ''generated_text'', PyStr (ustr ''a dog''))]])\<rparr>
             PyNone)
          proc0 (ImageObject 7) (Some (ustr ''hf_abc'')) default_model 40) =
     Inl (api_error 201 (ustr ''[{\"generated_text\": \"a dog\"}]''))"
  by (simp add: world_def caption_via_hf_api_def hf_open_def hf_post_def Let_def)

section \<open>Key lookup and fallback\<close>

lemma caption_keys_lookup:
  "first_key caption_keys d =
     (case map_of d (ustr ''generated_text'') of
        Some v \<Rightarrow> Some (call_strip v)
      | None \<Rightarrow>
          (case map_of d (ustr ''caption'') of
             Some v \<Rightarrow> Some (call_strip v)
           | None \<Rightarrow>
               (case map_of d (ustr ''text'') of
                  Some v \<Rightarrow> Some (call_strip v)
                | None \<Rightarrow> None)))"
  by (simp add: caption_keys_def split: option.splits)

lemma hf_normalize_records:
  assumes "j = PyList (PyDict d # rest) \<or> j = PyDict d"
    and "first_key caption_keys d = Some r"
  shows "hf_normalize repr j = r"
  using assms by auto





text \<open>
  C7 (as amended). When the endpoint answers 200 with a non-empty list whose first
  element is a record with none of the keys \<^verbatim>\<open>generated_text\<close>, \<^verbatim>\<open>caption\<close>, \<^verbatim>\<open>text\<close>,
  \<^verbatim>\<open>caption_via_hf_api\<close> returns the values of that record, each stringified, in the
  order the record holds them, joined by single blanks, and the whole stripped.
\<close>

theorem hf_fallback_joins_values:
  assumes "have_requests E"
    and "resolve_token hf_token (environ_HF_API_TOKEN E) = Some token" and "token \<noteq> []"
    and "hf_open E s img = (s1, Inr (f, close_after))"
    and "requests_post E (hf_request (hf_url model) (hf_headers token) f) = Inr resp"
    and "resp_status_code resp = 200" and "resp_json resp = Inr (PyList (PyDict d # rest))"
    and "map_of d (ustr ''generated_text'') = None"
    and "map_of d (ustr ''caption'') = None"
    and "map_of d (ustr ''text'') = None"
  shows "snd (caption_via_hf_api E s img hf_token model max_length) =
           Inr (strip (join (ustr '' '') (map (\<lambda>(k, v). py_str (py_repr E) v) d)))"
proof -
  have r: "snd (caption_via_hf_api E s img hf_token model max_length) =
             hf_normalize (py_repr E) (PyList (PyDict d # rest))"
    using assms by (simp add: caption_via_hf_api_response)
  from assms(8-10) show ?thesis
    unfolding r by (simp add: caption_keys_lookup)
qed

text \<open>\<^verbatim>\<open>[{"label": "dog", "score": 1}]\<close> yields \<^verbatim>\<open>dog 1\<close>.\<close>

theorem hf_fallback_joins_values_witness:
  "snd (caption_via_hf_api
          (world \<lparr>resp_status_code = 200, resp_text = [],
                  resp_json = Inr (PyList [PyDict [(ustr ''label'', PyStr (ustr ''dog'')),
                                                   (ustr ''score'', PyInt 1)]])\<rparr>
             PyNone)
          proc0 (ImageObject 7) (Some (ustr ''hf_abc'')) default_model 40) =
     Inr (ustr ''dog 1'')"
proof -
  let ?d = "[(ustr ''label'', PyStr (ustr ''dog'')), (ustr ''score'', PyInt 1)]"
  let ?resp = "\<lparr>resp_status_code = 200, resp_text = [], resp_json = Inr (PyList [PyDict ?d])\<rparr>"
  let ?W = "world ?resp PyNone"
  have 1: "have_requests ?W" by (simp add: world_def)
  have 2: "resolve_token (Some (ustr ''hf_abc'')) (environ_HF_API_TOKEN ?W) = Some (ustr ''hf_abc'')"
    by simp
  have 3: "ustr ''hf_abc'' \<noteq> []" by simp
  have 4: "hf_open ?W proc0 (ImageObject 7) = (proc0, Inr (7, False))" by (simp add: hf_open_def)
  have 5: "requests_post ?W (hf_request (hf_url default_model) (hf_headers (ustr ''hf_abc'')) 7) =
             Inr ?resp"
    by (simp add: world_def)
  have 6: "resp_status_code ?resp = 200" by simp
  have 7: "resp_json ?resp = Inr (PyList (PyDict ?d # []))" by simp
  have 8: "map_of ?d (ustr ''generated_text'') = None" by simp
  have 9: "map_of ?d (ustr ''caption'') = None" by simp
  have 10: "map_of ?d (ustr ''text'') = None" by simp
  have 11: "strip (join (ustr '' '') (map (\<lambda>(k, v). py_str (py_repr ?W) v) ?d)) = ustr ''dog 1''"
    by (simp add: world_def py_str_def str_int_def)
       (simp add: ustr_def strip_def lstrip_def rstrip_def isspace_def)
  from hf_fallback_joins_values [OF 1 2 3 4 5 6 7 8 9 10, of 40] 11
  show ?thesis by simp
qed

text \<open>
  C7 as stated fails: for \<^verbatim>\<open>[{"b": "x", "a": "y"}]\<close> the call returns \<^verbatim>\<open>x y\<close>, where the
  key-sorted concatenation of the values is \<^verbatim>\<open>yx\<close>.
\<close>

theorem hf_fallback_not_key_sorted:
  "snd (caption_via_hf_api
          (world \<lparr>resp_status_code = 200, resp_text = ustr ''[{\"b\": \"x\", \"a\": \"y\"}]'',
                  resp_json = Inr (PyList [PyDict [(ustr ''b'', PyStr (ustr ''x'')),
                                                   (ustr ''a'', PyStr (ustr ''y''))]])\<rparr>
             PyNone)
          proc0 (ImageObject 7) (Some (ustr ''hf_abc'')) default_model 40) =
     Inr (ustr ''x y'') \<and>
   spec_key_sorted_concat repr_plain
     [(ustr ''b'', PyStr (ustr ''x'')), (ustr ''a'', PyStr (ustr ''y''))] = ustr ''yx''"
  by (simp add: world_def caption_via_hf_api_def hf_open_def hf_post_def Let_def
        caption_keys_def spec_key_sorted_concat_def py_str_def)
     (simp add: ustr_def strip_def lstrip_def rstrip_def isspace_def)

section \<open>The request\<close>

text \<open>Nothing of the call depends on \<open>max_length\<close>.\<close>

lemma max_length_unused:
  "caption_via_hf_api E s img hf_token model max_length =
   caption_via_hf_api E s img hf_token model max_length'"
  by (simp add: caption_via_hf_api_def Let_def split: option.splits prod.splits sum.splits)

text \<open>
  C8, at a call with \<^verbatim>\<open>max_length=5\<close>. The only effect is one POST to the model's URL,
  with the bearer token in the \<^verbatim>\<open>Authorization\<close> header and a timeout of 120, but with
  \<^verbatim>\<open>params=None\<close> and \<^verbatim>\<open>data=None\<close>: the dictionary of line 101 that holds
  \<^verbatim>\<open>max_new_tokens\<close> is not part of the request, and the call with \<^verbatim>\<open>max_length=40\<close> is
  the same call.
\<close>

theorem max_length_not_sent:
  "fst (caption_via_hf_api
          (world \<lparr>resp_status_code = 200, resp_text = [],
                  resp_json = Inr (PyList [PyDict [(ustr ''generated_text'', PyStr (ustr ''a dog''))]])\<rparr>
             PyNone)
          proc0 (ImageObject 7) (Some (ustr ''hf_abc'')) default_model 5) =
     \<lparr>caption_pipeline = None,
      trace = [EvPost \<lparr>req_url = ustr ''https://api-inference.huggingface.co/models/Salesforce/blip-image-captioning-base'',
                       req_headers = [(ustr ''Authorization'', ustr ''Bearer hf_abc'')],
                       req_files = [(ustr ''inputs'', 7)],
                       req_params = None, req_data = None, req_timeout = 120\<rparr>]\<rparr> \<and>
   caption_via_hf_api
          (world \<lparr>resp_status_code = 200, resp_text = [],
                  resp_json = Inr (PyList [PyDict [(ustr ''generated_text'', PyStr (ustr ''a dog''))]])\<rparr>
             PyNone)
          proc0 (ImageObject 7) (Some (ustr ''hf_abc'')) default_model 5 =
   caption_via_hf_api
          (world \<lparr>resp_status_code = 200, resp_text = [],
                  resp_json = Inr (PyList [PyDict [(ustr ''generated_text'', PyStr (ustr ''a dog''))]])\<rparr>
             PyNone)
          proc0 (ImageObject 7) (Some (ustr ''hf_abc'')) default_model 40"
  by (simp add: world_def caption_via_hf_api_def hf_open_def hf_post_def Let_def proc0_def
        emit_def hf_request_def hf_url_def hf_headers_def default_model_def)
     (simp add: ustr_def)

section \<open>The local normalizer\<close>

lemma strip_Nil [simp]: "strip [] = []"
  by (simp add: strip_def lstrip_def rstrip_def)

lemma generate_caption_local_out:
  assumes "ensure_local_pipeline E s default_model = (s1, Inr pipe)"
    and "pipeline_call E pipe img max_length = Inr out"
  shows "snd (generate_caption_local E s img max_length) =
           (case local_normalize (py_repr E) out of
              Inl e \<Rightarrow> Inl (inference_failed e)
            | Inr txt \<Rightarrow> Inr txt)"
  using assms by (simp add: generate_caption_local_def Let_def split: sum.splits)

lemma local_normalize_not_dict:
  "\<not> is_dict x \<Longrightarrow>
   local_normalize repr (PyList (x # rest)) = Inr (strip (py_str repr x))"
  by (cases x) (simp_all add: call_strip_def Let_def)

lemma local_normalize_other:
  "\<not> nonempty_list out \<Longrightarrow> local_normalize repr out = Inr (py_str repr out)"
  by (induction repr out rule: local_normalize.induct) simp_all

lemma local_normalize_string:
  "map_of d (ustr ''generated_text'') = Some (PyStr x) \<Longrightarrow>
   local_normalize repr (PyList (PyDict d # rest)) = Inr (strip x)"
  by (simp add: Let_def call_strip_def)

lemma local_normalize_falsy:
  "map_of d (ustr ''generated_text'') = None \<or>
   (\<exists>v. map_of d (ustr ''generated_text'') = Some v \<and> \<not> truthy v) \<Longrightarrow>
   local_normalize repr (PyList (PyDict d # rest)) = Inr []"
  by (auto simp: Let_def call_strip_def)

text \<open>
  C6 (as amended). When the pipeline is at hand and its call returns \<open>out\<close>,
  \<^verbatim>\<open>generate_caption_local\<close> returns: for a non-empty list whose first element is a record,
  the stripped \<^verbatim>\<open>generated_text\<close> value when that is a string, and the empty string when
  the field is absent or holds a false value; for a non-empty list whose first element
  is no record, the stripped \<^verbatim>\<open>str\<close> of that element; for anything else \<^verbatim>\<open>str(out)\<close>,
  not stripped.
\<close>

theorem local_normalizer_cases:
  assumes "ensure_local_pipeline E s default_model = (s1, Inr pipe)"
    and "pipeline_call E pipe img max_length = Inr out"
  shows "(out = PyList (PyDict d # rest) \<and>
          map_of d (ustr ''generated_text'') = Some (PyStr x) \<longrightarrow>
            snd (generate_caption_local E s img max_length) = Inr (strip x)) \<and>
         (out = PyList (PyDict d # rest) \<and>
          (map_of d (ustr ''generated_text'') = None \<or>
           (\<exists>v. map_of d (ustr ''generated_text'') = Some v \<and> \<not> truthy v)) \<longrightarrow>
            snd (generate_caption_local E s img max_length) = Inr []) \<and>
         (out = PyList (y # rest) \<and> \<not> is_dict y \<longrightarrow>
            snd (generate_caption_local E s img max_length) = Inr (strip (py_str (py_repr E) y))) \<and>
         (\<not> nonempty_list out \<longrightarrow>
            snd (generate_caption_local E s img max_length) = Inr (py_str (py_repr E) out))"
proof -
  note r = generate_caption_local_out [OF assms]
  show ?thesis
    unfolding r
    by (intro conjI impI)
       (simp_all add: local_normalize_string local_normalize_falsy local_normalize_not_dict
          local_normalize_other del: local_normalize.simps)
qed

text \<open>The output \<^verbatim>\<open>[{"generated_text": " a dog "}]\<close> gives \<^verbatim>\<open>a dog\<close>.\<close>

theorem local_normalizer_cases_witness:
  "snd (generate_caption_local
          (world \<lparr>resp_status_code = 200, resp_text = [], resp_json = Inr PyNone\<rparr>
             (PyList [PyDict [(ustr ''generated_text'', PyStr (ustr '' a dog ''))]]))
          proc0 (ImagePath (ustr ''photo.jpg'')) 40) = Inr (ustr ''a dog'')"
proof -
  let ?d = "[(ustr ''generated_text'', PyStr (ustr '' a dog ''))]"
  let ?W = "world \<lparr>resp_status_code = 200, resp_text = [], resp_json = Inr PyNone\<rparr>
              (PyList [PyDict ?d])"
  let ?p = "Pipeline default_model (- 1)"
  have 1: "ensure_local_pipeline ?W proc0 default_model =
             ((emit (EvPipeline default_model (- 1) True) proc0)\<lparr>caption_pipeline := Some ?p\<rparr>,
              Inr ?p)"
    by (simp add: ensure_local_pipeline_def world_def proc0_def Let_def)
  have 2: "pipeline_call ?W ?p (ImagePath (ustr ''photo.jpg'')) 40 = Inr (PyList [PyDict ?d])"
    by (simp add: world_def)
  have 3: "strip (ustr '' a dog '') = ustr ''a dog''"
    by (simp add: ustr_def strip_def lstrip_def rstrip_def isspace_def)
  from local_normalizer_cases [OF 1 2, of ?d "[]" "ustr '' a dog ''"] 3
  show ?thesis by simp
qed

text \<open>
  C6 as stated fails: for the output \<^verbatim>\<open>[{"caption": "a dog"}]\<close> the field is absent and
  the caption is the empty string, where the stringification of the first record is
  \<^verbatim>\<open>{'caption': 'a dog'}\<close>.
\<close>

theorem local_missing_field_gives_empty:
  "snd (generate_caption_local
          (world \<lparr>resp_status_code = 200, resp_text = [], resp_json = Inr PyNone\<rparr>
             (PyList [PyDict [(ustr ''caption'', PyStr (ustr ''a dog''))]]))
          proc0 (ImagePath (ustr ''photo.jpg'')) 40) = Inr [] \<and>
   py_str repr_plain (PyDict [(ustr ''caption'', PyStr (ustr ''a dog''))]) =
     ustr (''{'' @ [CHR 0x27] @ ''caption'' @ [CHR 0x27] @ '': '' @
           [CHR 0x27] @ ''a dog'' @ [CHR 0x27] @ ''}'')"
  by (simp add: generate_caption_local_def ensure_local_pipeline_def world_def proc0_def
        Let_def call_strip_def py_str_def)
     (simp add: ustr_def)

section \<open>Effects of the two backends\<close>

lemma hf_open_effects:
  "\<exists>evs. trace (fst (hf_open E s img)) = trace s @ evs \<and> (\<forall>e\<in>set evs. remote_event e) \<and>
         caption_pipeline (fst (hf_open E s img)) = caption_pipeline s"
  by (auto simp: hf_open_def emit_def split: image_arg.splits sum.splits)

lemma hf_post_effects:
  "\<exists>evs. trace (fst (hf_post E s url headers f c)) = trace s @ evs \<and>
         (\<forall>e\<in>set evs. remote_event e) \<and>
         caption_pipeline (fst (hf_post E s url headers f c)) = caption_pipeline s"
  by (auto simp: hf_post_def Let_def emit_def split: sum.splits)

lemma caption_via_hf_api_effects:
  "\<exists>evs. trace (fst (caption_via_hf_api E s img hf_token model max_length)) = trace s @ evs \<and>
         (\<forall>e\<in>set evs. remote_event e) \<and>
         caption_pipeline (fst (caption_via_hf_api E s img hf_token model max_length)) =
           caption_pipeline s"
proof (cases "hf_open E s img")
  case (Pair s1 r)
  from hf_open_effects [of E s img] Pair
  obtain evs1 where 1: "trace s1 = trace s @ evs1" "\<forall>e\<in>set evs1. remote_event e"
    "caption_pipeline s1 = caption_pipeline s"
    by auto
  show ?thesis
  proof (cases r)
    case (Inl e)
    with Pair 1 show ?thesis
      by (auto simp: caption_via_hf_api_def Let_def split: option.splits)
  next
    case (Inr fc)
    obtain f c where fc: "fc = (f, c)" by (cases fc)
    { fix token
      from hf_post_effects [of E s1 "hf_url model" "hf_headers token" f c]
      obtain evs2 where
        "trace (fst (hf_post E s1 (hf_url model) (hf_headers token) f c)) = trace s1 @ evs2"
        "\<forall>e\<in>set evs2. remote_event e"
        "caption_pipeline (fst (hf_post E s1 (hf_url model) (hf_headers token) f c)) =
           caption_pipeline s1"
        by auto
      with 1 have "\<exists>evs. trace (fst (hf_post E s1 (hf_url model) (hf_headers token) f c)) =
                         trace s @ evs \<and> (\<forall>e\<in>set evs. remote_event e) \<and>
                     caption_pipeline (fst (hf_post E s1 (hf_url model) (hf_headers token) f c)) =
                       caption_pipeline s"
        by (intro exI [of _ "evs1 @ evs2"]) auto }
    with Pair Inr fc show ?thesis
      by (auto simp: caption_via_hf_api_def Let_def split: option.splits)
  qed
qed

section \<open>Memoization of the pipeline\<close>

lemma ensure_cached:
  "caption_pipeline s = Some p \<Longrightarrow> ensure_local_pipeline E s m = (s, Inr p)"
  by (simp add: ensure_local_pipeline_def)

lemma ensure_fresh:
  "caption_pipeline s = None \<Longrightarrow> ensure_local_pipeline E s m = (s', Inr p) \<Longrightarrow>
   pipe_model p = m \<and> caption_pipeline s' = Some p \<and>
   trace s' = trace s @ [EvPipeline m (pipe_device p) True]"
  by (auto simp: ensure_local_pipeline_def Let_def emit_def split: if_splits option.splits)

lemma ensure_failed:
  "ensure_local_pipeline E s m = (s', Inl e) \<Longrightarrow>
   caption_pipeline s = None \<and> caption_pipeline s' = None \<and>
   (\<exists>evs. trace s' = trace s @ evs \<and> (\<forall>e\<in>set evs. \<not> built e \<and> \<not> remote_event e))"
  by (auto simp: ensure_local_pipeline_def Let_def emit_def split: if_splits option.splits)

lemma ensure_effects:
  "\<exists>evs. trace (fst (ensure_local_pipeline E s m)) = trace s @ evs \<and>
         (\<forall>e\<in>set evs. \<not> remote_event e)"
  by (auto simp: ensure_local_pipeline_def Let_def emit_def split: if_splits option.splits)

lemma generate_caption_local_state:
  "fst (generate_caption_local E s img max_length) =
     (case ensure_local_pipeline E s default_model of
        (s1, Inl e) \<Rightarrow> s1
      | (s1, Inr pipe) \<Rightarrow> emit (EvCall pipe img max_length) s1)"
  by (simp add: generate_caption_local_def Let_def split: prod.splits sum.splits)

lemma generate_caption_local_effects:
  "\<exists>evs. trace (fst (generate_caption_local E s img max_length)) = trace s @ evs \<and>
         (\<forall>e\<in>set evs. \<not> remote_event e)"
proof (cases "ensure_local_pipeline E s default_model")
  case (Pair s1 r)
  from ensure_effects [of E s default_model] Pair
  obtain evs where "trace s1 = trace s @ evs" "\<forall>e\<in>set evs. \<not> remote_event e" by auto
  with Pair show ?thesis
    by (cases r) (auto simp: generate_caption_local_state emit_def)
qed

lemma remote_not_built: "remote_event e \<Longrightarrow> \<not> built e"
  by (cases e) simp_all

lemma one_way_remote:
  assumes "trace s' = trace s @ evs" and "\<forall>e\<in>set evs. remote_event e"
    and "caption_pipeline s' = caption_pipeline s"
  shows "one_way s s'"
proof -
  from assms(2) have "filter built evs = []" by (auto simp: filter_empty_conv remote_not_built)
  with assms show ?thesis by (simp add: one_way_def)
qed

lemma one_way_ensure: "one_way s (fst (ensure_local_pipeline E s m))"
proof (cases "ensure_local_pipeline E s m")
  case (Pair s' r)
  show ?thesis
  proof (cases r)
    case (Inl e)
    with Pair ensure_failed [of E s m s' e]
    obtain evs where "caption_pipeline s = None" "caption_pipeline s' = None"
      "trace s' = trace s @ evs" "\<forall>e\<in>set evs. \<not> built e" by auto
    moreover then have "filter built evs = []" by (simp add: filter_empty_conv)
    ultimately show ?thesis using Pair by (simp add: one_way_def)
  next
    case (Inr p)
    show ?thesis
    proof (cases "caption_pipeline s")
      case None
      from ensure_fresh [OF None] Pair Inr
      have "pipe_model p = m" "caption_pipeline s' = Some p"
        "trace s' = trace s @ [EvPipeline m (pipe_device p) True]" by auto
      with None Pair show ?thesis by (simp add: one_way_def)
    next
      case (Some q)
      with Pair show ?thesis by (simp add: ensure_cached one_way_def)
    qed
  qed
qed

lemma one_way_emit_call: "one_way s s1 \<Longrightarrow> one_way s (emit (EvCall p i n) s1)"
  by (auto simp: one_way_def emit_def split: option.splits)

lemma one_way_local: "one_way s (fst (generate_caption_local E s img max_length))"
proof (cases "ensure_local_pipeline E s default_model")
  case (Pair s1 r)
  with one_way_ensure [of s E default_model] have "one_way s s1" by simp
  with Pair show ?thesis
    by (cases r) (simp_all add: generate_caption_local_state one_way_emit_call)
qed

lemma one_way_hf: "one_way s (fst (caption_via_hf_api E s img hf_token model max_length))"
  using caption_via_hf_api_effects [of E s img hf_token model max_length]
  by (auto intro: one_way_remote)

lemma one_way_step: "one_way s (step s c)"
  by (cases c) (simp_all add: generate_caption_def one_way_ensure one_way_local one_way_hf)

lemma step_cached:
  "caption_pipeline s = Some p \<Longrightarrow>
   caption_pipeline (step s c) = Some p \<and> filter built (trace (step s c)) = filter built (trace s)"
  using one_way_step [of s c] by (simp add: one_way_def)

lemma run_cached:
  "caption_pipeline s = Some p \<Longrightarrow>
   caption_pipeline (run s cs) = Some p \<and> filter built (trace (run s cs)) = filter built (trace s)"
proof (induction cs arbitrary: s)
  case Nil
  then show ?case by (simp add: run_def)
next
  case (Cons c cs)
  from step_cached [OF Cons.prems, of c]
  have 1: "caption_pipeline (step s c) = Some p"
    and 2: "filter built (trace (step s c)) = filter built (trace s)" by simp_all
  from Cons.IH [OF 1] 2 show ?case by (simp add: run_def)
qed

lemma step_count:
  assumes "length (filter built (trace s)) = (if caption_pipeline s = None then 0 else 1)"
  shows "length (filter built (trace (step s c))) =
           (if caption_pipeline (step s c) = None then 0 else 1)"
  using one_way_step [of s c] assms
  by (auto simp: one_way_def split: option.splits if_splits)

lemma run_count:
  "length (filter built (trace s)) = (if caption_pipeline s = None then 0 else 1) \<Longrightarrow>
   length (filter built (trace (run s cs))) = (if caption_pipeline (run s cs) = None then 0 else 1)"
proof (induction cs arbitrary: s)
  case Nil
  then show ?case by (simp add: run_def)
next
  case (Cons c cs)
  from Cons.IH [OF step_count [OF Cons.prems, of c]] show ?case by (simp add: run_def)
qed

text \<open>
  C5 (as amended). A call of \<^verbatim>\<open>ensure_local_pipeline\<close> that finds a cached pipeline returns
  it and leaves the state as it is, whatever model name it is given. A call that finds
  none and succeeds has built a pipeline for the model name it was given and cached it; a
  call that fails leaves the cache empty. Every call of the module is a one-way move: the
  cache stays, or goes from empty to the one instance just built. So once a pipeline is
  cached it stays cached through any sequence of calls and nothing more is built, and a
  process that starts with an empty cache has built at most one pipeline successfully.
\<close>

theorem pipeline_memoized_one_way:
  "(caption_pipeline s = Some p \<longrightarrow> ensure_local_pipeline E s m = (s, Inr p)) \<and>
   (caption_pipeline s = None \<and> ensure_local_pipeline E s m = (s', Inr p) \<longrightarrow>
      pipe_model p = m \<and> caption_pipeline s' = Some p) \<and>
   (ensure_local_pipeline E s m = (s', Inl e) \<longrightarrow> caption_pipeline s' = None) \<and>
   one_way s (step s c) \<and>
   (caption_pipeline s = Some p \<longrightarrow>
      caption_pipeline (run s cs) = Some p \<and>
      filter built (trace (run s cs)) = filter built (trace s)) \<and>
   length (filter built (trace (run proc0 cs))) \<le> 1"
proof (intro conjI impI)
  assume "caption_pipeline s = Some p"
  then show "ensure_local_pipeline E s m = (s, Inr p)" by (rule ensure_cached)
next
  assume a: "caption_pipeline s = None \<and> ensure_local_pipeline E s m = (s', Inr p)"
  then show "pipe_model p = m" using ensure_fresh [of s E m s' p] by simp
  from a show "caption_pipeline s' = Some p" using ensure_fresh [of s E m s' p] by simp
next
  assume "ensure_local_pipeline E s m = (s', Inl e)"
  then show "caption_pipeline s' = None" using ensure_failed [of E s m s' e] by simp
next
  show "one_way s (step s c)" by (rule one_way_step)
next
  assume a: "caption_pipeline s = Some p"
  then show "caption_pipeline (run s cs) = Some p" using run_cached [of s p cs] by simp
  from a show "filter built (trace (run s cs)) = filter built (trace s)"
    using run_cached [of s p cs] by simp
next
  have "length (filter built (trace proc0)) = (if caption_pipeline proc0 = None then 0 else 1)"
    by (simp add: proc0_def)
  from run_count [OF this, of cs] show "length (filter built (trace (run proc0 cs))) \<le> 1"
    by (simp split: if_splits)
qed

section \<open>The dispatcher\<close>

text \<open>
  C1 (as amended). \<^verbatim>\<open>generate_caption\<close> with \<^verbatim>\<open>use_api\<close> true is the call of
  \<^verbatim>\<open>caption_via_hf_api\<close> with the same arguments, and leaves the cached pipeline alone; with
  \<^verbatim>\<open>use_api\<close> false it is the call of \<^verbatim>\<open>generate_caption_local\<close>. The outcome, an error
  included, and the state are those of the backend, unchanged. All effects of the call
  are effects of the remote path exactly when \<^verbatim>\<open>use_api\<close> is true.
\<close>

theorem generate_caption_dispatch:
  "(use_api \<longrightarrow>
      generate_caption E s img use_api hf_token model_name max_length =
        caption_via_hf_api E s img hf_token model_name max_length \<and>
      caption_pipeline (fst (generate_caption E s img use_api hf_token model_name max_length)) =
        caption_pipeline s) \<and>
   (\<not> use_api \<longrightarrow>
      generate_caption E s img use_api hf_token model_name max_length =
        generate_caption_local E s img max_length) \<and>
   (\<exists>evs. trace (fst (generate_caption E s img use_api hf_token model_name max_length)) =
            trace s @ evs \<and>
          (\<forall>e\<in>set evs. remote_event e = use_api))"
proof (cases use_api)
  case True
  with caption_via_hf_api_effects [of E s img hf_token model_name max_length]
  show ?thesis by (auto simp: generate_caption_def)
next
  case False
  with generate_caption_local_effects [of E s img max_length]
  show ?thesis by (auto simp: generate_caption_def)
qed

text \<open>A remote call that fails with status 503.\<close>

theorem generate_caption_dispatch_witness:
  "generate_caption
     (world \<lparr>resp_status_code = 503, resp_text = ustr ''loading'', resp_json = Inl []\<rparr> PyNone)
     proc0 (ImageObject 7) True (Some (ustr ''hf_abc'')) default_model 40 =
   caption_via_hf_api
     (world \<lparr>resp_status_code = 503, resp_text = ustr ''loading'', resp_json = Inl []\<rparr> PyNone)
     proc0 (ImageObject 7) (Some (ustr ''hf_abc'')) default_model 40 \<and>
   caption_pipeline (fst (generate_caption
     (world \<lparr>resp_status_code = 503, resp_text = ustr ''loading'', resp_json = Inl []\<rparr> PyNone)
     proc0 (ImageObject 7) True (Some (ustr ''hf_abc'')) default_model 40)) = None"
proof -
  let ?W = "world \<lparr>resp_status_code = 503, resp_text = ustr ''loading'', resp_json = Inl []\<rparr> PyNone"
  let ?g = "generate_caption ?W proc0 (ImageObject 7) True (Some (ustr ''hf_abc'')) default_model 40"
  from generate_caption_dispatch
    [of True ?W proc0 "ImageObject 7" "Some (ustr ''hf_abc'')" default_model 40]
  have 1: "?g = caption_via_hf_api ?W proc0 (ImageObject 7) (Some (ustr ''hf_abc'')) default_model 40"
    and 2: "caption_pipeline (fst ?g) = caption_pipeline proc0"
    by blast+
  have 3: "caption_pipeline proc0 = None" by (simp add: proc0_def)
  show ?thesis
  proof (rule conjI)
    show "?g = caption_via_hf_api ?W proc0 (ImageObject 7) (Some (ustr ''hf_abc'')) default_model 40"
      by (rule 1)
  next
    show "caption_pipeline (fst ?g) = None" by (simp only: 2 3)
  qed
qed

text \<open>
  C1 as stated fails: when the endpoint answers \<^verbatim>\<open>[{"generated_text": "  "}]\<close> the call
  succeeds with the empty string as caption.
\<close>

theorem generate_caption_empty_caption:
  "snd (generate_caption
          (world \<lparr>resp_status_code = 200, resp_text = ustr ''[{\"generated_text\": \"  \"}]'',
                  resp_json = Inr (PyList [PyDict [(ustr ''generated_text'', PyStr (ustr ''  ''))]])\<rparr>
             PyNone)
          proc0 (ImageObject 7) True (Some (ustr ''hf_abc'')) default_model 40) = Inr []"
  by (simp add: generate_caption_def world_def caption_via_hf_api_def hf_open_def hf_post_def
        Let_def caption_keys_def call_strip_def)
     (simp add: ustr_def strip_def lstrip_def rstrip_def isspace_def)

text \<open>
  After a first local call, \<^verbatim>\<open>ensure_local_pipeline("other/model")\<close> still leaves the
  pipeline of the default model in the cache.
\<close>

theorem pipeline_memoized_one_way_witness:
  "caption_pipeline
     (run (fst (generate_caption_local
                  (world \<lparr>resp_status_code = 200, resp_text = [], resp_json = Inr PyNone\<rparr> PyNone)
                  proc0 (ImagePath (ustr ''photo.jpg'')) 40))
          [EnsureLocalPipeline
             (world \<lparr>resp_status_code = 200, resp_text = [], resp_json = Inr PyNone\<rparr> PyNone)
             (ustr ''other/model'')]) =
   Some (Pipeline default_model (- 1))"
proof -
  let ?W = "world \<lparr>resp_status_code = 200, resp_text = [], resp_json = Inr PyNone\<rparr> PyNone"
  let ?s = "fst (generate_caption_local ?W proc0 (ImagePath (ustr ''photo.jpg'')) 40)"
  let ?p = "Pipeline default_model (- 1)"
  have h: "caption_pipeline ?s = Some ?p"
    by (simp add: generate_caption_local_def ensure_local_pipeline_def world_def proc0_def
          Let_def emit_def)
  from pipeline_memoized_one_way
    [of ?s ?p ?W "ustr ''other/model''" ?s "RuntimeError []"
        "EnsureLocalPipeline ?W (ustr ''other/model'')"
        "[EnsureLocalPipeline ?W (ustr ''other/model'')]"] h
  show ?thesis by blast
qed

text \<open>
  C5 as stated fails. A first local call whose construction raises builds and stores
  nothing, and the second call constructs again. And a first call through
  \<^verbatim>\<open>generate_caption(..., use_api=False, model_name="other/model")\<close> caches a pipeline of
  the default model: \<^verbatim>\<open>generate_caption_local\<close> is not given the model name.
\<close>

theorem first_call_may_not_construct:
  "trace (run proc0
     [GenerateCaptionLocal
        ((world \<lparr>resp_status_code = 200, resp_text = [], resp_json = Inr PyNone\<rparr> PyNone)
           \<lparr>pipeline_raises := \<lambda>m d. Some (OSError (ustr ''offline''))\<rparr>)
        (ImagePath (ustr ''photo.jpg'')) 40]) =
     [EvPipeline default_model (- 1) False] \<and>
   caption_pipeline (run proc0
     [GenerateCaptionLocal
        ((world \<lparr>resp_status_code = 200, resp_text = [], resp_json = Inr PyNone\<rparr> PyNone)
           \<lparr>pipeline_raises := \<lambda>m d. Some (OSError (ustr ''offline''))\<rparr>)
        (ImagePath (ustr ''photo.jpg'')) 40]) = None \<and>
   trace (run proc0
     [GenerateCaptionLocal
        ((world \<lparr>resp_status_code = 200, resp_text = [], resp_json = Inr PyNone\<rparr> PyNone)
           \<lparr>pipeline_raises := \<lambda>m d. Some (OSError (ustr ''offline''))\<rparr>)
        (ImagePath (ustr ''photo.jpg'')) 40,
      GenerateCaptionLocal
        (world \<lparr>resp_status_code = 200, resp_text = [], resp_json = Inr PyNone\<rparr> PyNone)
        (ImagePath (ustr ''photo.jpg'')) 40]) =
     [EvPipeline default_model (- 1) False, EvPipeline default_model (- 1) True,
      EvCall (Pipeline default_model (- 1)) (ImagePath (ustr ''photo.jpg'')) 40] \<and>
   caption_pipeline (run proc0
     [GenerateCaption
        (world \<lparr>resp_status_code = 200, resp_text = [], resp_json = Inr PyNone\<rparr> PyNone)
        (ImagePath (ustr ''photo.jpg'')) False None (ustr ''other/model'') 40]) =
     Some (Pipeline default_model (- 1)) \<and>
   default_model \<noteq> ustr ''other/model''"
  by (simp add: run_def generate_caption_def generate_caption_local_def
        ensure_local_pipeline_def world_def proc0_def Let_def emit_def default_model_def)

end
